theory Spec2Isabelle
  imports Complex_Main "HOL-Library.Multiset"
begin

section \<open>Values\<close>

text \<open>
  The ETL script \<^verbatim>\<open>et1.py\<close> turns the JSON records of two data.gov.in resources into two
  pandas frames and stores them as DuckDB tables; \<^verbatim>\<open>agent.py\<close> reads the tables back
  with three SQL statements.

  A field of a raw JSON record is null, a string or a number. A number too large for a
  64-bit float is read by Python as an infinity: that is \<open>RInf\<close>, of either sign. The finite
  numbers are modelled as exact rationals: the rounding error of the 64-bit floats that
  pandas and DuckDB compute with is outside this development. So are fields that hold a
  boolean, a list or an object, which the two resources do not have.
\<close>

datatype raw = RNull | RStr string | RNum rat | RInf

text \<open>
  A cell of a frame or of a table: missing (\<^verbatim>\<open>NaN\<close>, \<^verbatim>\<open>None\<close>, SQL \<^verbatim>\<open>NULL\<close>), a string,
  a finite float, an infinite float, or an integer (after \<^verbatim>\<open>astype(int)\<close>).
\<close>

datatype cell = CNull | CStr string | CNum rat | CInf | CInt int

datatype py_error = KeyError | ValueError | IntCastingNaNError | AttributeError

text \<open>
  \<^verbatim>\<open>pd.DataFrame(records)\<close>: a key that a record does not have (\<open>None\<close> here) and a JSON
  null are both missing values of the frame.
\<close>

fun cell_of :: "raw option \<Rightarrow> cell" where
  "cell_of None = CNull"
| "cell_of (Some RNull) = CNull"
| "cell_of (Some (RStr s)) = CStr s"
| "cell_of (Some (RNum q)) = CNum q"
| "cell_of (Some RInf) = CInf"

text \<open>
  \<^verbatim>\<open>pd.to_numeric(column, errors='coerce')\<close>, cell by cell. Which strings denote a number,
  and which number, is pandas' business: the reader of strings is the parameter
  \<open>str_num\<close>. It answers a finite number, an infinity (pandas reads \<^verbatim>\<open>inf\<close> and
  \<^verbatim>\<open>Infinity\<close> so), or \<open>None\<close> for a string that is coerced to \<^verbatim>\<open>NaN\<close>.
\<close>

datatype number = NFin rat | NInf

fun to_numeric :: "(string \<Rightarrow> number option) \<Rightarrow> cell \<Rightarrow> cell" where
  "to_numeric str_num CNull = CNull"
| "to_numeric str_num (CStr s) =
     (case str_num s of None \<Rightarrow> CNull | Some (NFin q) \<Rightarrow> CNum q | Some NInf \<Rightarrow> CInf)"
| "to_numeric str_num (CNum q) = CNum q"
| "to_numeric str_num CInf = CInf"
| "to_numeric str_num (CInt n) = CNum (of_int n)"

text \<open>
  \<^verbatim>\<open>astype(int)\<close> on a float column whose values are all finite: the fraction is cut off
  (towards zero), and a value beyond the 64-bit range becomes the least 64-bit integer,
  as the conversion instruction of x86-64 has it. On a column with a missing or an
  infinite value \<^verbatim>\<open>astype(int)\<close> raises \<^verbatim>\<open>IntCastingNaNError\<close>; the transforms below test
  for that before they apply \<open>astype_int\<close>.
\<close>

definition trunc :: "rat \<Rightarrow> int" where
  "trunc q = (if 0 \<le> q then \<lfloor>q\<rfloor> else \<lceil>q\<rceil>)"

definition int64_of :: "rat \<Rightarrow> int" where
  "int64_of q =
     (let t = trunc q
      in if - (2 ^ 63) \<le> t \<and> t < 2 ^ 63 then t else - (2 ^ 63))"

fun astype_int :: "cell \<Rightarrow> cell" where
  "astype_int (CNum q) = CInt (int64_of q)"
| "astype_int c = c"

subsection \<open>Strings\<close>

text \<open>
  A Python string is modelled by an Isabelle string, and \<^verbatim>\<open>str.strip()\<close>,
  \<^verbatim>\<open>str.title()\<close> and the case folding of \<^verbatim>\<open>ILIKE\<close> are modelled on ASCII text, the
  characters 1 to 127: there the functions below are what Python and DuckDB compute. What
  these do with white space and letters outside ASCII (Python strips U+00A0 and raises the
  case of accented letters, for instance) is not modelled: a theorem that states the value
  of one of these functions assumes \<open>ascii_text\<close>, and the query tools answer \<open>None\<close> on other
  text.
\<close>

definition ascii_text :: "string \<Rightarrow> bool" where
  "ascii_text s = list_all (\<lambda>c. 0 < (of_char c :: nat) \<and> (of_char c :: nat) < 128) s"

definition is_space :: "char \<Rightarrow> bool" where
  "is_space c = (let n = (of_char c :: nat) in (9 \<le> n \<and> n \<le> 13) \<or> (28 \<le> n \<and> n \<le> 32))"

definition is_upper :: "char \<Rightarrow> bool" where
  "is_upper c = (let n = (of_char c :: nat) in 65 \<le> n \<and> n \<le> 90)"

definition is_lower :: "char \<Rightarrow> bool" where
  "is_lower c = (let n = (of_char c :: nat) in 97 \<le> n \<and> n \<le> 122)"

definition lower :: "char \<Rightarrow> char" where
  "lower c = (if is_upper c then char_of ((of_char c :: nat) + 32) else c)"

definition upper :: "char \<Rightarrow> char" where
  "upper c = (if is_lower c then char_of ((of_char c :: nat) - 32) else c)"

definition strip :: "string \<Rightarrow> string" where
  "strip s = rev (dropWhile is_space (rev (dropWhile is_space s)))"

text \<open>
  \<open>title_from prev s\<close>: \<open>prev\<close> says whether the character before \<open>s\<close> was a letter. A
  letter after a letter is lowered, a letter after anything else is raised.
\<close>

fun title_from :: "bool \<Rightarrow> string \<Rightarrow> string" where
  "title_from prev [] = []"
| "title_from prev (c # cs) =
     (if is_upper c \<or> is_lower c
      then (if prev then lower c else upper c) # title_from True cs
      else c # title_from False cs)"

definition title :: "string \<Rightarrow> string" where
  "title s = title_from False s"

text \<open>
  The \<^verbatim>\<open>.str\<close> methods of a column of objects: an element that is not a string gives a
  missing value.
\<close>

fun str_strip :: "cell \<Rightarrow> cell" where
  "str_strip (CStr s) = CStr (strip s)"
| "str_strip c = CNull"

fun str_title :: "cell \<Rightarrow> cell" where
  "str_title (CStr s) = CStr (title s)"
| "str_title c = CNull"

text \<open>
  The \<^verbatim>\<open>.str\<close> accessor itself raises \<^verbatim>\<open>AttributeError\<close> unless the column is one of
  objects and its values are strings: pandas looks at the values that the column holds
  when \<^verbatim>\<open>.str\<close> is used, leaves the missing ones aside, and accepts the column when
  nothing is left or when a string is among the rest. A column of numbers only is
  refused, also when the column is one of objects.
\<close>

fun is_string :: "cell \<Rightarrow> bool" where
  "is_string (CStr s) = True"
| "is_string c = False"

definition str_accessor :: "bool \<Rightarrow> cell list \<Rightarrow> bool" where
  "str_accessor object_dtype cells =
     (object_dtype \<and> (list_ex is_string cells \<or> list_all (\<lambda>c. c = CNull) cells))"

section \<open>Transform: agriculture\<close>

text \<open>
  A raw record of the crop production resource. The transform renames its fields and
  keeps these seven, so the record is modelled by them; \<open>None\<close> is a key the record does
  not have. The keys \<^verbatim>\<open>area_\<close> and \<^verbatim>\<open>production_\<close> are written \<open>area\<close> and \<open>production\<close>.
  Other keys of a record are dropped by the selection of columns; a record with a key
  that is the new name of a renamed column (\<^verbatim>\<open>state\<close>, \<^verbatim>\<open>district\<close>, \<^verbatim>\<open>year\<close>,
  \<^verbatim>\<open>area_hectare\<close>, \<^verbatim>\<open>production_tonnes\<close>) would give the frame two columns of one label,
  and is not modelled.
\<close>

record agri_record =
  state_name :: "raw option"
  district_name :: "raw option"
  crop_year :: "raw option"
  season :: "raw option"
  crop :: "raw option"
  area :: "raw option"
  production :: "raw option"

text \<open>A row of the frame, and of the table \<^verbatim>\<open>agriculture_production\<close>.\<close>

record agri_row =
  state :: cell
  district :: cell
  crop :: cell
  year :: cell
  season :: cell
  area_hectare :: cell
  production_tonnes :: cell
  source_url :: cell

text \<open>
  A frame is the list of its rows, each with its index label. The frame of a list of
  records has a column for every key that some record has: a column that no record has
  makes the selection \<^verbatim>\<open>df[[...]]\<close> raise \<^verbatim>\<open>KeyError\<close>.
\<close>

definition has_column :: "('r \<Rightarrow> raw option) \<Rightarrow> 'r list \<Rightarrow> bool" where
  "has_column key records = list_ex (\<lambda>r. key r \<noteq> None) records"

text \<open>
  The column of a key is one of objects when some record has a string there, or when
  every record has the key with a null; numbers, with or without missing values, make a
  numeric column.
\<close>

definition is_str :: "raw option \<Rightarrow> bool" where
  "is_str v = (case v of Some (RStr s) \<Rightarrow> True | _ \<Rightarrow> False)"

definition object_column :: "('r \<Rightarrow> raw option) \<Rightarrow> 'r list \<Rightarrow> bool" where
  "object_column key records =
     (list_ex (\<lambda>r. is_str (key r)) records \<or> list_all (\<lambda>r. key r = Some RNull) records)"

definition agri_frame :: "agri_record list \<Rightarrow> string \<Rightarrow> (nat \<times> agri_row) list" where
  "agri_frame records url =
     map (\<lambda>(i, r). (i,
       \<lparr>state = cell_of (state_name r),
        district = cell_of (district_name r),
        crop = cell_of (agri_record.crop r),
        year = cell_of (crop_year r),
        season = cell_of (agri_record.season r),
        area_hectare = cell_of (area r),
        production_tonnes = cell_of (production r),
        source_url = CStr url\<rparr>)) (enumerate 0 records)"

definition agri_dropna :: "agri_row \<Rightarrow> bool" where
  "agri_dropna r =
     (year r \<noteq> CNull \<and> production_tonnes r \<noteq> CNull \<and> state r \<noteq> CNull
      \<and> district r \<noteq> CNull \<and> crop r \<noteq> CNull)"

text \<open>
  The transform, statement by statement: the selection of the seven columns, the two
  \<^verbatim>\<open>to_numeric\<close>, \<^verbatim>\<open>dropna\<close>, \<^verbatim>\<open>astype(int)\<close> on the years that are left, and the three
  \<^verbatim>\<open>.str.strip().str.title()\<close> on the values that are left.
\<close>

definition transform_agri_data ::
  "(string \<Rightarrow> number option) \<Rightarrow> agri_record list \<Rightarrow> string
     \<Rightarrow> py_error + (nat \<times> agri_row) list" where
  "transform_agri_data str_num records url =
     (if \<not> (has_column state_name records \<and> has_column district_name records
            \<and> has_column agri_record.crop records \<and> has_column crop_year records
            \<and> has_column agri_record.season records \<and> has_column area records
            \<and> has_column production records)
      then Inl KeyError
      else
        let df = agri_frame records url;
            df = map (\<lambda>(i, r). (i, r\<lparr>year := to_numeric str_num (year r)\<rparr>)) df;
            df = map (\<lambda>(i, r). (i, r\<lparr>production_tonnes :=
                                       to_numeric str_num (production_tonnes r)\<rparr>)) df;
            df = filter (\<lambda>(i, r). agri_dropna r) df
        in if list_ex (\<lambda>(i, r). year r = CInf) df
           then Inl IntCastingNaNError
           else
             let df = map (\<lambda>(i, r). (i, r\<lparr>year := astype_int (year r)\<rparr>)) df
             in if \<not> (str_accessor (object_column state_name records)
                          (map (\<lambda>(i, r). state r) df)
                       \<and> str_accessor (object_column district_name records)
                          (map (\<lambda>(i, r). district r) df)
                       \<and> str_accessor (object_column agri_record.crop records)
                          (map (\<lambda>(i, r). crop r) df))
                then Inl AttributeError
                else Inr (map (\<lambda>(i, r). (i,
                       r\<lparr>state := str_title (str_strip (state r)),
                         district := str_title (str_strip (district r)),
                         crop := str_title (str_strip (crop r))\<rparr>)) df))"

section \<open>Transform: climate\<close>

text \<open>
  A raw record of the rainfall resource is a dictionary: the transform reads the keys
  \<^verbatim>\<open>subdivision\<close>, \<^verbatim>\<open>year\<close> and the twelve month keys, and renames nothing.
\<close>

type_synonym climate_record = "string \<rightharpoonup> raw"

record climate_row =
  subdivision :: cell
  year :: cell
  month :: cell
  rainfall_mm :: cell
  source_url :: cell

definition month_columns_raw :: "string list" where
  "month_columns_raw =
     [''jan'', ''feb'', ''mar'', ''apr'', ''may'', ''jun'',
      ''jul'', ''aug'', ''sep'', ''oct'', ''nov'', ''dec'']"

text \<open>
  The loop over \<open>month_columns_raw\<close> makes each month column numeric. A row of the wide
  frame is read by column label.
\<close>

definition numeric_months :: "(string \<Rightarrow> number option) \<Rightarrow> climate_record \<Rightarrow> string \<Rightarrow> cell" where
  "numeric_months str_num r col =
     (if col \<in> set month_columns_raw then to_numeric str_num (cell_of (r col))
      else cell_of (r col))"

text \<open>
  \<^verbatim>\<open>df.melt(id_vars, value_vars, ...)\<close>: for each month in turn, one row per row of the wide
  frame, under a fresh index that counts from 0; the constant \<^verbatim>\<open>source_url\<close> column is added
  to the result.
\<close>

definition melt :: "(string \<Rightarrow> cell) list \<Rightarrow> string \<Rightarrow> (nat \<times> climate_row) list" where
  "melt df url =
     enumerate 0 (concat (map (\<lambda>m. map (\<lambda>w.
       \<lparr>subdivision = w ''subdivision'',
        year = w ''year'',
        month = CStr m,
        rainfall_mm = w m,
        source_url = CStr url\<rparr>) df) month_columns_raw))"

definition climate_dropna :: "climate_row \<Rightarrow> bool" where
  "climate_dropna r =
     (climate_row.year r \<noteq> CNull \<and> rainfall_mm r \<noteq> CNull \<and> subdivision r \<noteq> CNull)"

text \<open>
  \<^verbatim>\<open>melt\<close> raises \<^verbatim>\<open>ValueError\<close> when the frame already has a column of the name
  \<^verbatim>\<open>rainfall_mm\<close> that it is to give to the values, and \<^verbatim>\<open>KeyError\<close> when one of the
  fourteen columns that it is to read is not in the frame. \<^verbatim>\<open>astype(int)\<close> and the \<^verbatim>\<open>.str\<close>
  accessor on \<^verbatim>\<open>subdivision\<close> raise as they do for the agriculture frame.
\<close>

definition transform_climate_data ::
  "(string \<Rightarrow> number option) \<Rightarrow> climate_record list \<Rightarrow> string
     \<Rightarrow> py_error + (nat \<times> climate_row) list" where
  "transform_climate_data str_num records url =
     (if has_column (\<lambda>r. r ''rainfall_mm'') records
      then Inl ValueError
      else if \<not> (has_column (\<lambda>r. r ''subdivision'') records
                 \<and> has_column (\<lambda>r. r ''year'') records
                 \<and> list_all (\<lambda>m. has_column (\<lambda>r. r m) records) month_columns_raw)
      then Inl KeyError
      else
        let df_tidy = melt (map (numeric_months str_num) records) url;
            df_tidy = map (\<lambda>(i, r). (i, r\<lparr>climate_row.year :=
                             to_numeric str_num (climate_row.year r)\<rparr>)) df_tidy;
            df_tidy = filter (\<lambda>(i, r). climate_dropna r) df_tidy
        in if list_ex (\<lambda>(i, r). climate_row.year r = CInf) df_tidy
           then Inl IntCastingNaNError
           else
             let df_tidy = map (\<lambda>(i, r). (i, r\<lparr>climate_row.year :=
                                  astype_int (climate_row.year r)\<rparr>)) df_tidy
             in if \<not> str_accessor (object_column (\<lambda>r. r ''subdivision'') records)
                        (map (\<lambda>(i, r). subdivision r) df_tidy)
                then Inl AttributeError
                else Inr (map (\<lambda>(i, r). (i,
                       r\<lparr>subdivision := str_title (str_strip (subdivision r))\<rparr>)) df_tidy))"

subsection \<open>A reader of decimal numerals\<close>

text \<open>
  A reader for the examples. It reads the plain decimal numerals: an optional minus sign,
  digits, and optionally a point and more digits, which pandas reads as the same number.
  pandas reads more strings than these as numbers (with an exponent, with a plus sign,
  with blanks around, without digits before the point, \<^verbatim>\<open>inf\<close>), so \<open>decimal\<close> stands for
  \<^verbatim>\<open>pd.to_numeric\<close> only on the plain numerals and on strings that pandas does not read
  either; the examples have no other strings.
\<close>

definition digit_of :: "char \<Rightarrow> nat option" where
  "digit_of c = (let n = (of_char c :: nat) in if 48 \<le> n \<and> n \<le> 57 then Some (n - 48) else None)"

fun digits_from :: "nat \<Rightarrow> string \<Rightarrow> nat option" where
  "digits_from acc [] = Some acc"
| "digits_from acc (c # cs) =
     (case digit_of c of None \<Rightarrow> None | Some d \<Rightarrow> digits_from (10 * acc + d) cs)"

definition unsigned_decimal :: "string \<Rightarrow> rat option" where
  "unsigned_decimal s =
     (let ip = takeWhile (\<lambda>c. c \<noteq> CHR ''.'') s;
          rest = dropWhile (\<lambda>c. c \<noteq> CHR ''.'') s
      in if ip = [] then None
         else case digits_from 0 ip of
           None \<Rightarrow> None
         | Some n \<Rightarrow>
             (case rest of
                [] \<Rightarrow> Some (of_nat n)
              | _ # fp \<Rightarrow>
                  (case digits_from 0 fp of
                     None \<Rightarrow> None
                   | Some f \<Rightarrow> Some (of_nat n + of_nat f / 10 ^ length fp))))"

definition decimal :: "string \<Rightarrow> number option" where
  "decimal s =
     map_option NFin
       (case s of
          [] \<Rightarrow> None
        | c # cs \<Rightarrow> if c = CHR ''-'' then map_option uminus (unsigned_decimal cs)
                    else unsigned_decimal s)"

section \<open>Load\<close>

text \<open>
  \<^verbatim>\<open>CREATE OR REPLACE TABLE name AS SELECT * FROM temp_df\<close>: the table gets the columns of
  the frame, without its index. The database file is a catalogue of tables by name.
\<close>

datatype dataframe = AgriFrame "(nat \<times> agri_row) list" | ClimateFrame "(nat \<times> climate_row) list"

datatype table = AgriTable "agri_row list" | ClimateTable "climate_row list"

type_synonym database = "string \<rightharpoonup> table"

fun table_of :: "dataframe \<Rightarrow> table" where
  "table_of (AgriFrame df) = AgriTable (map snd df)"
| "table_of (ClimateFrame df) = ClimateTable (map snd df)"

text \<open>
  The statement is built by pasting the name into it, and the frame is read by DuckDB
  column by column. Two things are therefore left to DuckDB and not modelled: what the
  statement means for a name that is not a plain identifier (or that differs from another
  name by case only, or is \<^verbatim>\<open>temp_df\<close>), and what becomes of a column of objects that
  mixes strings and numbers. The load is modelled for the two names that the script and
  the tools use, and for frames with the column types that the transforms give, the two
  columns that the agriculture transform leaves as they came holding either strings or
  numbers; for anything else the answer is \<open>None\<close>.
\<close>

definition table_names :: "string list" where
  "table_names = [''agriculture_production'', ''climate_rainfall'']"

fun is_varchar :: "cell \<Rightarrow> bool" where
  "is_varchar CNull = True"
| "is_varchar (CStr s) = True"
| "is_varchar c = False"

fun is_bigint :: "cell \<Rightarrow> bool" where
  "is_bigint (CInt n) = True"
| "is_bigint c = False"

fun is_double :: "cell \<Rightarrow> bool" where
  "is_double (CNum q) = True"
| "is_double c = False"

fun is_number :: "cell \<Rightarrow> bool" where
  "is_number (CNum q) = True"
| "is_number CInf = True"
| "is_number c = False"

definition uniform :: "cell list \<Rightarrow> bool" where
  "uniform cells =
     (list_all is_varchar cells \<or> list_all (\<lambda>c. c = CNull \<or> is_number c) cells)"

fun loadable :: "dataframe \<Rightarrow> bool" where
  "loadable (AgriFrame df) =
     (list_all (\<lambda>(i, r). is_varchar (state r) \<and> is_varchar (district r)
          \<and> is_varchar (agri_row.crop r) \<and> is_bigint (agri_row.year r)
          \<and> is_number (production_tonnes r) \<and> is_varchar (agri_row.source_url r)) df
      \<and> uniform (map (\<lambda>(i, r). agri_row.season r) df)
      \<and> uniform (map (\<lambda>(i, r). area_hectare r) df))"
| "loadable (ClimateFrame df) =
     list_all (\<lambda>(i, r). is_varchar (subdivision r) \<and> is_bigint (climate_row.year r)
          \<and> is_varchar (month r) \<and> is_number (rainfall_mm r)
          \<and> is_varchar (climate_row.source_url r)) df"

text \<open>
  The loop over \<^verbatim>\<open>dataframes.items()\<close>, with the database before and after. The
  dictionary is the list of its items, in their order.
\<close>

fun load_to_duckdb :: "(string \<times> dataframe) list \<Rightarrow> database \<Rightarrow> database option" where
  "load_to_duckdb [] con = Some con"
| "load_to_duckdb ((table_name, df) # dataframes) con =
     (if table_name \<in> set table_names \<and> loadable df
      then load_to_duckdb dataframes (con(table_name \<mapsto> table_of df))
      else None)"

section \<open>Queries\<close>

subsection \<open>SQL operators\<close>

text \<open>
  \<^verbatim>\<open>LIKE\<close>: \<^verbatim>\<open>%\<close> in the pattern stands for any run of characters, \<^verbatim>\<open>_\<close> for any one
  character, every other character for itself; the pattern has to cover the whole
  string. \<^verbatim>\<open>ILIKE\<close> lowers both sides first.
\<close>

fun like :: "string \<Rightarrow> string \<Rightarrow> bool" where
  "like [] [] = True"
| "like (c # cs) [] = False"
| "like [] (p # ps) = (p = CHR ''%'' \<and> like [] ps)"
| "like (c # cs) (p # ps) =
     (if p = CHR ''%'' then like (c # cs) ps \<or> like cs (p # ps)
      else (p = CHR ''_'' \<or> p = c) \<and> like cs ps)"

definition ilike :: "string \<Rightarrow> string \<Rightarrow> bool" where
  "ilike s pattern = like (map lower s) (map lower pattern)"

text \<open>On a cell: \<^verbatim>\<open>NULL ILIKE p\<close> is \<^verbatim>\<open>NULL\<close>, and the row is not selected.\<close>

fun sql_ilike :: "cell \<Rightarrow> string \<Rightarrow> bool" where
  "sql_ilike (CStr s) pattern = ilike s pattern"
| "sql_ilike c pattern = False"

datatype db_error = CatalogError | BinderError | ConversionError

text \<open>
  \<^verbatim>\<open>CAST(x AS INTEGER)\<close> of a \<^verbatim>\<open>DOUBLE\<close>, to the 32-bit type: a value from \<open>- 2 ^ 31\<close> up to,
  but not including, \<open>2 ^ 31\<close> is rounded to the nearest integer, a tie to the even one;
  any other value is a conversion error. For a value from \<open>2 ^ 31 - 1 / 2\<close> on, the nearest
  integer is \<open>2 ^ 31\<close>, which the type does not have: what DuckDB answers then is not
  modelled (\<open>integer_rounds\<close> is false there, and the tool answers \<open>None\<close>).
\<close>

definition fits_integer :: "int \<Rightarrow> bool" where
  "fits_integer n = (- (2 ^ 31) \<le> n \<and> n < 2 ^ 31)"

definition round_half_even :: "rat \<Rightarrow> int" where
  "round_half_even q =
     (let f = \<lfloor>q\<rfloor>; d = q - of_int f
      in if d < 1 / 2 then f else if 1 / 2 < d then f + 1 else if even f then f else f + 1)"

definition cast_double_integer :: "rat \<Rightarrow> db_error + int" where
  "cast_double_integer q =
     (if - (2 ^ 31) \<le> q \<and> q < 2 ^ 31 then Inr (round_half_even q) else Inl ConversionError)"

definition integer_rounds :: "rat \<Rightarrow> bool" where
  "integer_rounds q = (\<not> (2 ^ 31 - 1 / 2 \<le> q \<and> q < 2 ^ 31))"

text \<open>\<^verbatim>\<open>ANY_VALUE\<close>: the first value of the group that is not \<^verbatim>\<open>NULL\<close>.\<close>

definition any_value :: "cell list \<Rightarrow> cell" where
  "any_value cs = (case filter (\<lambda>c. c \<noteq> CNull) cs of [] \<Rightarrow> CNull | c # _ \<Rightarrow> c)"

text \<open>
  \<^verbatim>\<open>GROUP BY\<close>: the groups of the selected rows by key, each with its rows in the order of
  the table.
\<close>

definition group_by :: "('r \<Rightarrow> 'k) \<Rightarrow> 'r list \<Rightarrow> ('k \<times> 'r list) list" where
  "group_by key rs = map (\<lambda>k. (k, filter (\<lambda>r. key r = k) rs)) (remdups (map key rs))"

text \<open>Aggregates and projections that may fail, one group after the other.\<close>

fun sql_map :: "('a \<Rightarrow> db_error + 'b) \<Rightarrow> 'a list \<Rightarrow> db_error + 'b list" where
  "sql_map f [] = Inr []"
| "sql_map f (x # xs) =
     (case f x of
        Inl e \<Rightarrow> Inl e
      | Inr y \<Rightarrow> (case sql_map f xs of Inl e \<Rightarrow> Inl e | Inr ys \<Rightarrow> Inr (y # ys)))"

subsection \<open>What a tool returns\<close>

text \<open>
  Each tool returns a string: the JSON text of a list of records
  (\<^verbatim>\<open>result.to_json(orient="records")\<close>), a plain sentence, or a sentence built around the
  text of the exception that the database raised. The three are kept apart here, and the
  JSON text is represented by the records that it encodes.
\<close>

datatype 'a tool_result = Json "'a list" | Sentence string | ErrorSentence db_error

text \<open>Decimal digits of an integer, as an f-string prints it.\<close>

fun show_nat :: "nat \<Rightarrow> string" where
  "show_nat n = (if n < 10 then [char_of (48 + n)] else show_nat (n div 10) @ [char_of (48 + n mod 10)])"

definition show_int :: "int \<Rightarrow> string" where
  "show_int i = (if i < 0 then CHR ''-'' # show_nat (nat (- i)) else show_nat (nat i))"

text \<open>
  The statements are built by pasting the argument between two quote characters. An
  argument with a quote character in it makes a different statement, whose meaning is not
  modelled; nor is the matching of text outside ASCII: the tools answer \<open>None\<close> for an
  argument that is not \<open>sql_literal\<close>. They also answer \<open>None\<close> for a table whose columns do
  not have the types that the transform gives them, or whose text is not ASCII.

  The database file is taken to exist; the tools open it anew at each call.
\<close>

definition sql_literal :: "string \<Rightarrow> bool" where
  "sql_literal s = (ascii_text s \<and> CHR 0x27 \<notin> set s)"

fun ascii_cell :: "cell \<Rightarrow> bool" where
  "ascii_cell (CStr s) = ascii_text s"
| "ascii_cell c = True"

fun bigint_of :: "cell \<Rightarrow> int" where
  "bigint_of (CInt n) = n"
| "bigint_of c = 0"

fun double_of :: "cell \<Rightarrow> rat" where
  "double_of (CNum q) = q"
| "double_of c = 0"

subsection \<open>Top crops by production\<close>

record top_crop =
  crop :: cell
  total_production :: int
  source_url :: cell

text \<open>
  The rows that the tool is modelled on: \<^verbatim>\<open>state\<close>, \<^verbatim>\<open>crop\<close> and \<^verbatim>\<open>source_url\<close> are
  \<^verbatim>\<open>VARCHAR\<close>, \<^verbatim>\<open>year\<close> is \<^verbatim>\<open>BIGINT\<close>, \<^verbatim>\<open>production_tonnes\<close> is a finite \<^verbatim>\<open>DOUBLE\<close>. The year
  of every row fits the 32-bit type: \<^verbatim>\<open>CAST(year AS INTEGER)\<close> fails on a year that does not
  fit, and DuckDB is free to evaluate it on the rows of the state only, or on all rows.
\<close>

definition agri_modelled :: "agri_row \<Rightarrow> bool" where
  "agri_modelled r =
     (is_varchar (state r) \<and> ascii_cell (state r) \<and> is_varchar (agri_row.crop r)
      \<and> is_bigint (agri_row.year r) \<and> fits_integer (bigint_of (agri_row.year r))
      \<and> is_double (production_tonnes r) \<and> is_varchar (agri_row.source_url r))"

text \<open>
  \<^verbatim>\<open>WHERE state ILIKE '{state}' AND CAST(year AS INTEGER) = {year}\<close>
\<close>

definition where_top_crops :: "string \<Rightarrow> int \<Rightarrow> agri_row \<Rightarrow> bool" where
  "where_top_crops st yr r = (sql_ilike (state r) st \<and> bigint_of (agri_row.year r) = yr)"

text \<open>\<^verbatim>\<open>SUM(CAST(production_tonnes AS DOUBLE))\<close> over the rows of a group.\<close>

definition production_sum :: "agri_row list \<Rightarrow> rat" where
  "production_sum g = sum_list (map (\<lambda>r. double_of (production_tonnes r)) g)"

text \<open>
  \<^verbatim>\<open>SELECT crop, CAST(SUM(CAST(production_tonnes AS DOUBLE)) AS INTEGER) AS total_production,
  ANY_VALUE(source_url) AS source_url\<close>, for one group.
\<close>

definition select_top_crop :: "cell \<times> agri_row list \<Rightarrow> db_error + top_crop" where
  "select_top_crop g =
     (case cast_double_integer (production_sum (snd g)) of
        Inl e \<Rightarrow> Inl e
      | Inr n \<Rightarrow>
          Inr \<lparr>crop = fst g, total_production = n,
               source_url = any_value (map agri_row.source_url (snd g))\<rparr>)"

text \<open>The groups of the statement: \<^verbatim>\<open>WHERE\<close> and \<^verbatim>\<open>GROUP BY crop\<close>.\<close>

definition crop_groups :: "agri_row list \<Rightarrow> string \<Rightarrow> int \<Rightarrow> (cell \<times> agri_row list) list" where
  "crop_groups rows st yr = group_by agri_row.crop (filter (where_top_crops st yr) rows)"

text \<open>
  The statement: the aggregates of each group, \<^verbatim>\<open>ORDER BY total_production DESC\<close> and
  \<^verbatim>\<open>LIMIT {top_m}\<close>. SQL leaves open in which order groups of the same total come. The
  parameter \<open>emit\<close> is the order in which the database hands the groups to the sort, which
  is modelled as a stable one: with every rearrangement for \<open>emit\<close>, every order of the
  equal totals is covered.
\<close>

definition top_crops_query ::
  "(top_crop list \<Rightarrow> top_crop list) \<Rightarrow> agri_row list \<Rightarrow> string \<Rightarrow> int \<Rightarrow> nat
     \<Rightarrow> db_error + top_crop list" where
  "top_crops_query emit rows st yr top_m =
     (case sql_map select_top_crop (crop_groups rows st yr) of
        Inl e \<Rightarrow> Inl e
      | Inr totals \<Rightarrow> Inr (take top_m (sort_key (\<lambda>t. - total_production t) (emit totals))))"

definition no_production_data :: "string \<Rightarrow> int \<Rightarrow> string" where
  "no_production_data st yr =
     ''No production data found for '' @ st @ '' in '' @ show_int yr @ ''.''"

definition get_top_crops_by_production ::
  "(top_crop list \<Rightarrow> top_crop list) \<Rightarrow> database \<Rightarrow> string \<Rightarrow> int \<Rightarrow> nat
     \<Rightarrow> top_crop tool_result option" where
  "get_top_crops_by_production emit con st yr top_m =
     (if \<not> sql_literal st then None
      else case con ''agriculture_production'' of
        None \<Rightarrow> Some (ErrorSentence CatalogError)
      | Some (ClimateTable rows) \<Rightarrow> Some (ErrorSentence BinderError)
      | Some (AgriTable rows) \<Rightarrow>
          if \<not> (list_all agri_modelled rows
                 \<and> list_all (\<lambda>g. integer_rounds (production_sum (snd g)))
                      (crop_groups rows st yr))
          then None
          else (case top_crops_query emit rows st yr top_m of
                  Inl e \<Rightarrow> Some (ErrorSentence e)
                | Inr result \<Rightarrow>
                    if result = [] then Some (Sentence (no_production_data st yr))
                    else Some (Json result)))"

text \<open>The sum that the total of a crop is made from, read off the table.\<close>

definition crop_sum :: "agri_row list \<Rightarrow> string \<Rightarrow> int \<Rightarrow> cell \<Rightarrow> rat" where
  "crop_sum rows st yr c =
     production_sum (filter (\<lambda>r. where_top_crops st yr r \<and> agri_row.crop r = c) rows)"

subsection \<open>Average annual rainfall\<close>

record yearly_total =
  year :: cell
  total_annual_rainfall :: rat
  source_url :: cell

record rainfall_average =
  average_annual_rainfall :: "rat option"
  source_url :: cell

text \<open>
  The rows that the tool is modelled on: \<^verbatim>\<open>subdivision\<close> and \<^verbatim>\<open>source_url\<close> are
  \<^verbatim>\<open>VARCHAR\<close>, \<^verbatim>\<open>year\<close> is \<^verbatim>\<open>BIGINT\<close>, \<^verbatim>\<open>rainfall_mm\<close> is a finite \<^verbatim>\<open>DOUBLE\<close>.
\<close>

definition climate_modelled :: "climate_row \<Rightarrow> bool" where
  "climate_modelled r =
     (is_varchar (subdivision r) \<and> ascii_cell (subdivision r)
      \<and> is_bigint (climate_row.year r) \<and> is_double (rainfall_mm r)
      \<and> is_varchar (climate_row.source_url r))"

text \<open>
  \<^verbatim>\<open>WHERE subdivision ILIKE '{subdivision}' AND year BETWEEN {start_year} AND {end_year}\<close>
\<close>

definition where_rainfall :: "string \<Rightarrow> int \<Rightarrow> int \<Rightarrow> climate_row \<Rightarrow> bool" where
  "where_rainfall sub start_year end_year r =
     (sql_ilike (subdivision r) sub
      \<and> start_year \<le> bigint_of (climate_row.year r) \<and> bigint_of (climate_row.year r) \<le> end_year)"

text \<open>\<^verbatim>\<open>SUM(rainfall_mm)\<close> over the rows of a group.\<close>

definition rainfall_sum :: "climate_row list \<Rightarrow> rat" where
  "rainfall_sum g = sum_list (map (\<lambda>r. double_of (rainfall_mm r)) g)"

text \<open>The common table expression \<^verbatim>\<open>YearlyTotals\<close>.\<close>

definition yearly_totals :: "climate_row list \<Rightarrow> yearly_total list" where
  "yearly_totals sel =
     map (\<lambda>(y, g).
       \<lparr>year = y,
        total_annual_rainfall = rainfall_sum g,
        source_url = any_value (map climate_row.source_url g)\<rparr>)
       (group_by climate_row.year sel)"

text \<open>\<^verbatim>\<open>AVG\<close> over no row is \<^verbatim>\<open>NULL\<close>.\<close>

definition sql_avg :: "rat list \<Rightarrow> rat option" where
  "sql_avg xs = (if xs = [] then None else Some (sum_list xs / of_nat (length xs)))"

text \<open>
  The outer \<^verbatim>\<open>SELECT\<close> aggregates without \<^verbatim>\<open>GROUP BY\<close>: it gives one row, whatever
  \<^verbatim>\<open>YearlyTotals\<close> holds. The parameter \<open>emit\<close> is the order in which the rows of
  \<^verbatim>\<open>YearlyTotals\<close> reach the outer aggregates.
\<close>

definition average_rainfall_query ::
  "(yearly_total list \<Rightarrow> yearly_total list) \<Rightarrow> climate_row list \<Rightarrow> string \<Rightarrow> int \<Rightarrow> int
     \<Rightarrow> rainfall_average list" where
  "average_rainfall_query emit rows sub start_year end_year =
     (let totals = emit (yearly_totals (filter (where_rainfall sub start_year end_year) rows))
      in [\<lparr>average_annual_rainfall = sql_avg (map total_annual_rainfall totals),
           source_url = any_value (map yearly_total.source_url totals)\<rparr>])"

definition get_average_annual_rainfall ::
  "(yearly_total list \<Rightarrow> yearly_total list) \<Rightarrow> database \<Rightarrow> string \<Rightarrow> int \<Rightarrow> int
     \<Rightarrow> rainfall_average tool_result option" where
  "get_average_annual_rainfall emit con sub start_year end_year =
     (if \<not> sql_literal sub then None
      else case con ''climate_rainfall'' of
        None \<Rightarrow> Some (ErrorSentence CatalogError)
      | Some (AgriTable rows) \<Rightarrow> Some (ErrorSentence BinderError)
      | Some (ClimateTable rows) \<Rightarrow>
          if \<not> list_all climate_modelled rows then None
          else Some (Json (average_rainfall_query emit rows sub start_year end_year)))"

section \<open>Example data\<close>

text \<open>The two \<^verbatim>\<open>url\<close> entries of \<^verbatim>\<open>DATASETS\<close>.\<close>

definition agriculture_url :: string where
  "agriculture_url =
     ''https://data.gov.in/resource/district-wise-season-wise-crop-production-statistics-1997''"

definition climate_url :: string where
  "climate_url = ''https://www.data.gov.in/resource/sub-divisional-monthly-rainfall-1901-2017''"

text \<open>
  Six raw agriculture records: the third has no \<^verbatim>\<open>crop_year\<close>, the fifth a production
  that is not a number.
\<close>

definition agri_records_ex :: "agri_record list" where
  "agri_records_ex =
     [\<lparr>state_name = Some (RStr '' punjab''), district_name = Some (RStr ''AMRITSAR''),
       crop_year = Some (RStr ''2010''), season = Some (RStr ''Kharif''),
       crop = Some (RStr ''rice''), area = Some (RStr ''10''),
       production = Some (RStr ''2.75'')\<rparr>,
      \<lparr>state_name = Some (RStr ''Punjab''), district_name = Some (RStr ''Ludhiana''),
       crop_year = Some (RNum 2010), season = Some (RStr ''Rabi''),
       crop = Some (RStr ''Wheat''), area = None,
       production = Some (RStr ''100.5'')\<rparr>,
      \<lparr>state_name = Some (RStr ''Punjab''), district_name = Some (RStr ''Ludhiana''),
       crop_year = None, season = Some (RStr ''Rabi''),
       crop = Some (RStr ''Wheat''), area = None,
       production = Some (RStr ''55'')\<rparr>,
      \<lparr>state_name = Some (RStr ''Punjab''), district_name = Some (RStr ''Patiala''),
       crop_year = Some (RStr ''2010''), season = Some (RStr ''Rabi''),
       crop = Some (RStr ''WHEAT''), area = None,
       production = Some (RStr ''7'')\<rparr>,
      \<lparr>state_name = Some (RStr ''Himachal Pradesh''), district_name = Some (RStr ''Shimla''),
       crop_year = Some (RStr ''2010''), season = Some (RStr ''Rabi''),
       crop = Some (RStr ''Wheat''), area = Some RNull,
       production = Some (RStr ''NA'')\<rparr>,
      \<lparr>state_name = Some (RStr ''Himachal Pradesh''), district_name = Some (RStr ''Shimla''),
       crop_year = Some (RStr ''2010''), season = Some (RStr ''Kharif''),
       crop = Some (RStr ''Maize''), area = Some (RStr ''3''),
       production = Some (RStr ''40'')\<rparr>]"

definition agri_frame_ex :: "(nat \<times> agri_row) list" where
  "agri_frame_ex =
     [(0, \<lparr>state = CStr ''Punjab'', district = CStr ''Amritsar'', crop = CStr ''Rice'',
            year = CInt 2010, season = CStr ''Kharif'', area_hectare = CStr ''10'',
            production_tonnes = CNum (11 / 4), source_url = CStr agriculture_url\<rparr>),
      (1, \<lparr>state = CStr ''Punjab'', district = CStr ''Ludhiana'', crop = CStr ''Wheat'',
            year = CInt 2010, season = CStr ''Rabi'', area_hectare = CNull,
            production_tonnes = CNum (201 / 2), source_url = CStr agriculture_url\<rparr>),
      (3, \<lparr>state = CStr ''Punjab'', district = CStr ''Patiala'', crop = CStr ''Wheat'',
            year = CInt 2010, season = CStr ''Rabi'', area_hectare = CNull,
            production_tonnes = CNum 7, source_url = CStr agriculture_url\<rparr>),
      (5, \<lparr>state = CStr ''Himachal Pradesh'', district = CStr ''Shimla'', crop = CStr ''Maize'',
            year = CInt 2010, season = CStr ''Kharif'', area_hectare = CStr ''3'',
            production_tonnes = CNum 40, source_url = CStr agriculture_url\<rparr>)]"

text \<open>
  Two records whose state is a string in the first and a number in the second. The first
  has no year and is dropped, so the \<^verbatim>\<open>.str\<close> accessor finds a number and nothing else.
\<close>

definition agri_records_number_ex :: "agri_record list" where
  "agri_records_number_ex =
     [\<lparr>state_name = Some (RStr ''Punjab''), district_name = Some (RStr ''Ludhiana''),
       crop_year = Some RNull, season = Some (RStr ''Rabi''),
       crop = Some (RStr ''Wheat''), area = Some (RStr ''1''),
       production = Some (RStr ''55'')\<rparr>,
      \<lparr>state_name = Some (RNum 7), district_name = Some (RStr ''Ludhiana''),
       crop_year = Some (RStr ''2010''), season = Some (RStr ''Rabi''),
       crop = Some (RStr ''Wheat''), area = Some (RStr ''1''),
       production = Some (RStr ''55'')\<rparr>]"

text \<open>One raw rainfall record, with a value for each month.\<close>

definition punjab_1901 :: climate_record where
  "punjab_1901 =
     [''subdivision'' \<mapsto> RStr ''PUNJAB'', ''year'' \<mapsto> RStr ''1901'',
      ''jan'' \<mapsto> RStr ''34.7'', ''feb'' \<mapsto> RStr ''22.5'', ''mar'' \<mapsto> RStr ''10'',
      ''apr'' \<mapsto> RStr ''0.5'', ''may'' \<mapsto> RStr ''12'', ''jun'' \<mapsto> RStr ''28.1'',
      ''jul'' \<mapsto> RStr ''160'', ''aug'' \<mapsto> RStr ''170.25'', ''sep'' \<mapsto> RStr ''61'',
      ''oct'' \<mapsto> RNum 0, ''nov'' \<mapsto> RStr ''1'', ''dec'' \<mapsto> RStr ''4.5'']"

definition climate_row_ex :: "string \<Rightarrow> rat \<Rightarrow> climate_row" where
  "climate_row_ex m q =
     \<lparr>subdivision = CStr ''Punjab'', year = CInt 1901, month = CStr m,
      rainfall_mm = CNum q, source_url = CStr climate_url\<rparr>"

definition climate_frame_ex :: "(nat \<times> climate_row) list" where
  "climate_frame_ex =
     [(0, climate_row_ex ''jan'' (347 / 10)), (1, climate_row_ex ''feb'' (45 / 2)),
      (2, climate_row_ex ''mar'' 10), (3, climate_row_ex ''apr'' (1 / 2)),
      (4, climate_row_ex ''may'' 12), (5, climate_row_ex ''jun'' (281 / 10)),
      (6, climate_row_ex ''jul'' 160), (7, climate_row_ex ''aug'' (681 / 4)),
      (8, climate_row_ex ''sep'' 61), (9, climate_row_ex ''oct'' 0),
      (10, climate_row_ex ''nov'' 1), (11, climate_row_ex ''dec'' (9 / 2))]"

text \<open>
  The same record with a value for December that is not a number, with an infinite year,
  and with a key \<^verbatim>\<open>rainfall_mm\<close> of its own.
\<close>

definition punjab_1901_no_dec :: climate_record where
  "punjab_1901_no_dec = punjab_1901(''dec'' \<mapsto> RStr ''NA'')"

definition punjab_infinite_year :: climate_record where
  "punjab_infinite_year = punjab_1901(''year'' \<mapsto> RInf)"

definition punjab_1901_value_name :: climate_record where
  "punjab_1901_value_name = punjab_1901(''rainfall_mm'' \<mapsto> RNum 5)"

text \<open>The database after the ETL run on these records.\<close>

definition database_ex :: database where
  "database_ex =
     [''agriculture_production'' \<mapsto> AgriTable (map snd agri_frame_ex),
      ''climate_rainfall'' \<mapsto> ClimateTable (map snd climate_frame_ex)]"

text \<open>The records that the top crops of Punjab in 2010 are.\<close>

definition top_crops_ex :: "top_crop list" where
  "top_crops_ex =
     [\<lparr>top_crop.crop = CStr ''Wheat'', total_production = 108,
       source_url = CStr agriculture_url\<rparr>,
      \<lparr>top_crop.crop = CStr ''Rice'', total_production = 3,
       source_url = CStr agriculture_url\<rparr>]"

section \<open>Evaluation of the examples\<close>

lemma decimal_ex:
  "decimal ''2010'' = Some (NFin 2010)" "decimal ''1901'' = Some (NFin 1901)"
  "decimal ''2.75'' = Some (NFin (11 / 4))" "decimal ''100.5'' = Some (NFin (201 / 2))"
  "decimal ''55'' = Some (NFin 55)" "decimal ''7'' = Some (NFin 7)" "decimal ''NA'' = None"
  "decimal ''40'' = Some (NFin 40)"
  by (simp_all add: decimal_def unsigned_decimal_def digit_of_def)

lemma title_ex:
  "title (strip '' punjab'') = ''Punjab''" "title (strip ''Punjab'') = ''Punjab''"
  "title (strip ''AMRITSAR'') = ''Amritsar''" "title (strip ''Ludhiana'') = ''Ludhiana''"
  "title (strip ''Patiala'') = ''Patiala''" "title (strip ''Shimla'') = ''Shimla''"
  "title (strip ''Himachal Pradesh'') = ''Himachal Pradesh''"
  "title (strip ''rice'') = ''Rice''" "title (strip ''Wheat'') = ''Wheat''"
  "title (strip ''WHEAT'') = ''Wheat''" "title (strip ''Maize'') = ''Maize''"
  "title (strip ''PUNJAB'') = ''Punjab''"
  by code_simp+

lemma int64_of_ex: "int64_of 2010 = 2010" "int64_of 1901 = 1901"
  by (simp_all add: int64_of_def trunc_def)

lemma agri_transform_ex:
  "transform_agri_data decimal agri_records_ex agriculture_url = Inr agri_frame_ex"
  by (simp add: transform_agri_data_def has_column_def object_column_def is_str_def
      str_accessor_def agri_frame_def agri_dropna_def agri_records_ex_def agri_frame_ex_def
      decimal_ex title_ex int64_of_ex Let_def)

text \<open>
  The \<^verbatim>\<open>.str\<close> accessor looks at the rows that are left: here the column \<^verbatim>\<open>state\<close> is one
  of objects, and the only row left has a number there.
\<close>

lemma agri_transform_number_ex:
  "transform_agri_data decimal agri_records_number_ex agriculture_url = Inl AttributeError"
  by (simp add: transform_agri_data_def has_column_def object_column_def is_str_def
      str_accessor_def agri_frame_def agri_dropna_def agri_records_number_ex_def
      decimal_ex int64_of_ex Let_def)

section \<open>The agriculture transform\<close>

lemma to_numeric_num:
  "to_numeric f c \<noteq> CNull \<Longrightarrow> (\<exists>q. to_numeric f c = CNum q) \<or> to_numeric f c = CInf"
  by (cases c) (auto split: option.splits number.splits)

lemma astype_to_numeric:
  "to_numeric f c \<noteq> CNull \<Longrightarrow> to_numeric f c \<noteq> CInf
     \<Longrightarrow> \<exists>n. astype_int (to_numeric f c) = CInt n"
  by (cases c) (auto split: option.splits number.splits)

lemma str_title_strip_varchar: "is_varchar (str_title (str_strip c))"
  by (cases c) simp_all

text \<open>The frame that the transform returns, when it returns one.\<close>

lemma transform_agri_data_Inr:
  assumes "transform_agri_data str_num records url = Inr df"
  shows "df = map (\<lambda>(i, r). (i,
                       r\<lparr>state := str_title (str_strip (state r)),
                         district := str_title (str_strip (district r)),
                         agri_row.crop := str_title (str_strip (agri_row.crop r))\<rparr>))
      (map (\<lambda>(i, r). (i, r\<lparr>agri_row.year := astype_int (agri_row.year r)\<rparr>))
        (filter (\<lambda>(i, r). agri_dropna r)
          (map (\<lambda>(i, r). (i, r\<lparr>production_tonnes := to_numeric str_num (production_tonnes r)\<rparr>))
            (map (\<lambda>(i, r). (i, r\<lparr>agri_row.year := to_numeric str_num (agri_row.year r)\<rparr>))
              (agri_frame records url)))))
    \<and> \<not> list_ex (\<lambda>(i, r). agri_row.year r = CInf)
        (filter (\<lambda>(i, r). agri_dropna r)
          (map (\<lambda>(i, r). (i, r\<lparr>production_tonnes := to_numeric str_num (production_tonnes r)\<rparr>))
            (map (\<lambda>(i, r). (i, r\<lparr>agri_row.year := to_numeric str_num (agri_row.year r)\<rparr>))
              (agri_frame records url))))"
  using assms unfolding transform_agri_data_def Let_def
  by (simp only: if_distrib [of "\<lambda>x. x = Inr df"] sum.simps if_False simp_thms split: if_splits)

text \<open>Where a row of the clean frame comes from: the record at its index.\<close>

lemma transform_agri_data_row:
  assumes "transform_agri_data str_num records url = Inr df" and "(i, r) \<in> set df"
  shows "i < length records
    \<and> to_numeric str_num (cell_of (crop_year (records ! i))) \<noteq> CNull
    \<and> to_numeric str_num (cell_of (crop_year (records ! i))) \<noteq> CInf
    \<and> to_numeric str_num (cell_of (production (records ! i))) \<noteq> CNull
    \<and> agri_row.year r = astype_int (to_numeric str_num (cell_of (crop_year (records ! i))))
    \<and> production_tonnes r = to_numeric str_num (cell_of (production (records ! i)))
    \<and> state r = str_title (str_strip (cell_of (state_name (records ! i))))
    \<and> agri_row.crop r = str_title (str_strip (cell_of (agri_record.crop (records ! i))))
    \<and> agri_row.source_url r = CStr url"
  using transform_agri_data_Inr [OF assms(1)] assms(2)
  by (auto simp: agri_frame_def in_set_enumerate_eq agri_dropna_def list_ex_iff)

text \<open>
  C1. Whenever \<open>transform_agri_data\<close> returns a frame, every row of it comes from an input
  record, has an integer \<open>year\<close> and a numeric \<open>production_tonnes\<close> (a finite number or an
  infinity), neither of them missing; and an input record whose \<^verbatim>\<open>crop_year\<close> is missing
  (absent or null), or whose \<^verbatim>\<open>production_\<close> is not read as a number, is the origin of no
  row.
\<close>

theorem transform_agri_data_rows:
  assumes "transform_agri_data str_num records url = Inr df"
  shows "(\<forall>(i, r) \<in> set df. i < length records
            \<and> (\<exists>n. agri_row.year r = CInt n)
            \<and> ((\<exists>q. production_tonnes r = CNum q) \<or> production_tonnes r = CInf))
       \<and> (\<forall>i < length records.
            cell_of (crop_year (records ! i)) = CNull
            \<or> to_numeric str_num (cell_of (production (records ! i))) = CNull
            \<longrightarrow> i \<notin> fst ` set df)"
proof (intro conjI ballI allI impI)
  fix x assume "x \<in> set df"
  obtain i r where x: "x = (i, r)"
    by (cases x)
  with \<open>x \<in> set df\<close> have mem: "(i, r) \<in> set df"
    by simp
  note row = transform_agri_data_row [OF assms mem]
  show "case x of (i, r) \<Rightarrow> i < length records
            \<and> (\<exists>n. agri_row.year r = CInt n)
            \<and> ((\<exists>q. production_tonnes r = CNum q) \<or> production_tonnes r = CInf)"
    using row astype_to_numeric [of str_num "cell_of (crop_year (records ! i))"]
      to_numeric_num [of str_num "cell_of (production (records ! i))"]
    by (simp add: x)
next
  fix i
  assume "i < length records"
    and miss: "cell_of (crop_year (records ! i)) = CNull
            \<or> to_numeric str_num (cell_of (production (records ! i))) = CNull"
  show "i \<notin> fst ` set df"
  proof
    assume "i \<in> fst ` set df"
    then obtain r where "(i, r) \<in> set df" by auto
    from transform_agri_data_row [OF assms this] miss show False by auto
  qed
qed

theorem transform_agri_data_rows_witness:
  "transform_agri_data decimal agri_records_ex agriculture_url = Inr agri_frame_ex
   \<and> cell_of (crop_year (agri_records_ex ! 2)) = CNull
   \<and> 2 \<notin> fst ` set agri_frame_ex
   \<and> to_numeric decimal (cell_of (production (agri_records_ex ! 4))) = CNull
   \<and> 4 \<notin> fst ` set agri_frame_ex
   \<and> (\<exists>n. agri_row.year (snd (agri_frame_ex ! 0)) = CInt n)
   \<and> (\<exists>q. production_tonnes (snd (agri_frame_ex ! 0)) = CNum q)"
proof -
  note rows = transform_agri_data_rows [OF agri_transform_ex]
  have len: "length agri_records_ex = 6"
    by (simp add: agri_records_ex_def)
  have a: "cell_of (crop_year (agri_records_ex ! 2)) = CNull"
    by (simp add: agri_records_ex_def)
  have b: "to_numeric decimal (cell_of (production (agri_records_ex ! 4))) = CNull"
    by (simp add: agri_records_ex_def decimal_ex)
  have "2 \<notin> fst ` set agri_frame_ex"
    using rows a len by auto
  moreover have "4 \<notin> fst ` set agri_frame_ex"
    using rows b len by auto
  moreover have "(\<exists>n. agri_row.year (snd (agri_frame_ex ! 0)) = CInt n)
      \<and> (\<exists>q. production_tonnes (snd (agri_frame_ex ! 0)) = CNum q)"
  proof -
    obtain i r where ir: "agri_frame_ex ! 0 = (i, r)"
      by (cases "agri_frame_ex ! 0")
    have "agri_frame_ex ! 0 \<in> set agri_frame_ex"
      by (simp add: agri_frame_ex_def)
    then have "(i, r) \<in> set agri_frame_ex"
      by (simp add: ir)
    moreover have "production_tonnes r \<noteq> CInf"
      using ir by (auto simp: agri_frame_ex_def)
    ultimately show ?thesis
      using rows by (auto simp: ir)
  qed
  ultimately show ?thesis
    using agri_transform_ex a b by simp
qed

section \<open>The climate transform\<close>

lemma map_index_enumerate:
  "map (\<lambda>(i, x). (i, f x)) (enumerate n xs) = enumerate n (map f xs)"
  by (induction xs arbitrary: n) simp_all

lemma filter_index_enumerate:
  "\<forall>x \<in> set xs. P x \<Longrightarrow> filter (\<lambda>(i, x). P x) (enumerate n xs) = enumerate n xs"
  by (induction xs arbitrary: n) simp_all

lemma list_ex_index_enumerate:
  "list_ex (\<lambda>(i, x). P x) (enumerate n xs) = list_ex P xs"
  by (induction xs arbitrary: n) simp_all

lemma map_value_enumerate: "map (\<lambda>(i, x). f x) (enumerate n xs) = map f xs"
  by (induction xs arbitrary: n) simp_all

lemma year_not_month: "''year'' \<notin> set month_columns_raw" "''subdivision'' \<notin> set month_columns_raw"
  by (simp_all add: month_columns_raw_def)

lemma length_month_columns_raw: "length month_columns_raw = 12"
  by (simp add: month_columns_raw_def)

lemma month_columns_raw_not_Nil: "month_columns_raw \<noteq> []"
  by (simp add: month_columns_raw_def)

lemma cell_not_CNull: "CNum q \<noteq> CNull" "CInf \<noteq> CNull"
  by simp_all

text \<open>
  A single record with a string for the subdivision and a year: the rows of its months
  that are left when the missing values are dropped.
\<close>

lemma melt_single:
  assumes sub: "r ''subdivision'' = Some (RStr s)"
    and yr: "to_numeric str_num (cell_of (r ''year'')) = c" and "c \<noteq> CNull"
  shows "filter (\<lambda>(i, r). climate_dropna r)
      (map (\<lambda>(i, r). (i, r\<lparr>climate_row.year := to_numeric str_num (climate_row.year r)\<rparr>))
        (melt (map (numeric_months str_num) [r]) url)) =
    filter (\<lambda>(i, r). rainfall_mm r \<noteq> CNull)
      (enumerate 0 (map (\<lambda>m.
        \<lparr>subdivision = CStr s, year = c, month = CStr m,
         rainfall_mm = to_numeric str_num (cell_of (r m)), source_url = CStr url\<rparr>)
        month_columns_raw))"
proof -
  let ?row = "\<lambda>m. \<lparr>subdivision = cell_of (r ''subdivision''), year = cell_of (r ''year''),
       month = CStr m, rainfall_mm = to_numeric str_num (cell_of (r m)), source_url = CStr url\<rparr>"
  have melted: "melt (map (numeric_months str_num) [r]) url = enumerate 0 (map ?row month_columns_raw)"
    unfolding melt_def
    by (rule arg_cong [where f = "enumerate 0"])
       (simp add: numeric_months_def year_not_month cong: map_cong)
  show ?thesis
    unfolding melted map_index_enumerate
    by (rule filter_cong) (auto simp: sub yr assms(3) climate_dropna_def comp_def in_set_enumerate_eq)
qed

text \<open>The frame of a single record with a full set of values, computed.\<close>

lemma transform_climate_data_one:
  assumes sub: "r ''subdivision'' = Some (RStr s)"
    and yr: "to_numeric str_num (cell_of (r ''year'')) = CNum y"
    and months: "\<forall>m \<in> set month_columns_raw. to_numeric str_num (cell_of (r m)) \<noteq> CNull"
    and novalue: "r ''rainfall_mm'' = None"
  shows "transform_climate_data str_num [r] url =
      Inr (enumerate 0 (map (\<lambda>m.
        \<lparr>subdivision = CStr (title (strip s)), year = CInt (int64_of y), month = CStr m,
         rainfall_mm = to_numeric str_num (cell_of (r m)), source_url = CStr url\<rparr>)
        month_columns_raw))
    \<and> length month_columns_raw = 12"
proof -
  let ?row = "\<lambda>m. \<lparr>subdivision = CStr s, year = CNum y, month = CStr m,
         rainfall_mm = to_numeric str_num (cell_of (r m)), source_url = CStr url\<rparr>"
  let ?A = "\<lambda>row. row\<lparr>climate_row.year := astype_int (climate_row.year row)\<rparr>"
  let ?N = "\<lambda>row. row\<lparr>subdivision := str_title (str_strip (subdivision row))\<rparr>"
  have y: "r ''year'' \<noteq> None"
    using yr by (cases "r ''year''") simp_all
  have m: "r m \<noteq> None" if "m \<in> set month_columns_raw" for m
    using months that by (cases "r m") auto
  have noval: "\<not> has_column (\<lambda>r. r ''rainfall_mm'') [r]"
    using novalue by (simp add: has_column_def)
  have cols: "has_column (\<lambda>r. r ''subdivision'') [r] \<and> has_column (\<lambda>r. r ''year'') [r]
            \<and> list_all (\<lambda>m. has_column (\<lambda>r. r m) [r]) month_columns_raw"
    using sub y m by (simp add: has_column_def list_all_iff)
  have obj: "object_column (\<lambda>r. r ''subdivision'') [r]"
    using sub by (simp add: object_column_def is_str_def)
  have "filter (\<lambda>(i, r). rainfall_mm r \<noteq> CNull) (enumerate 0 (map ?row month_columns_raw))
      = enumerate 0 (map ?row month_columns_raw)"
    by (rule filter_index_enumerate) (use months in auto)
  with melt_single [OF sub yr cell_not_CNull(1), of url]
  have tidy: "filter (\<lambda>(i, r). climate_dropna r)
      (map (\<lambda>(i, r). (i, r\<lparr>climate_row.year := to_numeric str_num (climate_row.year r)\<rparr>))
        (melt (map (numeric_months str_num) [r]) url)) = enumerate 0 (map ?row month_columns_raw)"
    by simp
  have fin: "\<not> list_ex (\<lambda>(i, r). climate_row.year r = CInf)
      (enumerate 0 (map ?row month_columns_raw))"
    by (auto simp: list_ex_iff in_set_enumerate_eq)
  have "list_ex is_string (map (\<lambda>m. CStr s) month_columns_raw)"
    by (simp add: month_columns_raw_def)
  then have acc: "str_accessor (object_column (\<lambda>r. r ''subdivision'') [r])
      (map (\<lambda>(i, r). subdivision r)
        (map (\<lambda>(i, r). (i, ?A r)) (enumerate 0 (map ?row month_columns_raw))))"
    by (simp add: str_accessor_def obj map_index_enumerate map_value_enumerate comp_def)
  have unfolded: "transform_climate_data str_num [r] url =
      Inr (map (\<lambda>(i, r). (i, ?N r)) (map (\<lambda>(i, r). (i, ?A r))
        (enumerate 0 (map ?row month_columns_raw))))"
    unfolding transform_climate_data_def Let_def tidy
    by (simp only: noval cols fin acc simp_thms if_False)
  have rows: "map ?N (map ?A (map ?row month_columns_raw)) =
      map (\<lambda>m. \<lparr>subdivision = CStr (title (strip s)), year = CInt (int64_of y), month = CStr m,
         rainfall_mm = to_numeric str_num (cell_of (r m)), source_url = CStr url\<rparr>)
        month_columns_raw"
    by simp
  show ?thesis
    unfolding unfolded
    by (simp only: map_index_enumerate rows length_month_columns_raw simp_thms)
qed

lemma decimal_rain_ex:
  "decimal ''34.7'' = Some (NFin (347 / 10))" "decimal ''22.5'' = Some (NFin (45 / 2))"
  "decimal ''10'' = Some (NFin 10)" "decimal ''0.5'' = Some (NFin (1 / 2))"
  "decimal ''12'' = Some (NFin 12)" "decimal ''28.1'' = Some (NFin (281 / 10))"
  "decimal ''160'' = Some (NFin 160)" "decimal ''170.25'' = Some (NFin (681 / 4))"
  "decimal ''61'' = Some (NFin 61)" "decimal ''1'' = Some (NFin 1)"
  "decimal ''4.5'' = Some (NFin (9 / 2))"
  by (simp_all add: decimal_def unsigned_decimal_def digit_of_def)

lemma punjab_1901_months:
  "\<forall>m \<in> set month_columns_raw. to_numeric decimal (cell_of (punjab_1901 m)) \<noteq> CNull"
  by (simp add: month_columns_raw_def punjab_1901_def decimal_rain_ex)

lemma punjab_1901_rows:
  "enumerate 0 (map (\<lambda>m.
        \<lparr>subdivision = CStr (title (strip ''PUNJAB'')), year = CInt (int64_of 1901), month = CStr m,
         rainfall_mm = to_numeric decimal (cell_of (punjab_1901 m)), source_url = CStr climate_url\<rparr>)
        month_columns_raw) = climate_frame_ex"
  by (simp add: month_columns_raw_def punjab_1901_def decimal_rain_ex climate_frame_ex_def
      climate_row_ex_def title_ex int64_of_ex)

lemma punjab_1901_ex:
  "punjab_1901 ''subdivision'' = Some (RStr ''PUNJAB'')"
  "to_numeric decimal (cell_of (punjab_1901 ''year'')) = CNum 1901"
  "punjab_1901 ''rainfall_mm'' = None"
  by (simp_all add: punjab_1901_def decimal_ex)

lemma ascii_text_ex: "ascii_text ''PUNJAB''" "ascii_text ''Punjab''" "ascii_text ''punjab''"
  "ascii_text ''Pradesh''" "ascii_text ''Himachal Pradesh''"
  by (simp_all add: ascii_text_def)

lemma climate_transform_ex:
  "transform_climate_data decimal [punjab_1901] climate_url = Inr climate_frame_ex"
  using transform_climate_data_one [OF punjab_1901_ex(1,2) punjab_1901_months punjab_1901_ex(3),
      of climate_url]
  by (simp only: punjab_1901_rows)

text \<open>
  C2, as the code has it. A single raw climate record without a key \<^verbatim>\<open>rainfall_mm\<close>,
  whose subdivision is a string of ASCII text, whose year is read as a finite number and
  whose twelve month values are all read as numbers, gives exactly twelve rows, one per
  month abbreviation in the order of \<open>month_columns_raw\<close>, indexed from 0. Each row carries
  the subdivision trimmed and title-cased (not the string as it came), the year cut to an
  integer, the value of its month, and the source URL.
\<close>

theorem transform_climate_data_single:
  assumes "r ''subdivision'' = Some (RStr s)" and "ascii_text s"
    and "to_numeric str_num (cell_of (r ''year'')) = CNum y"
    and "\<forall>m \<in> set month_columns_raw. to_numeric str_num (cell_of (r m)) \<noteq> CNull"
    and "r ''rainfall_mm'' = None"
  shows "transform_climate_data str_num [r] url =
      Inr (enumerate 0 (map (\<lambda>m.
        \<lparr>subdivision = CStr (title (strip s)), year = CInt (int64_of y), month = CStr m,
         rainfall_mm = to_numeric str_num (cell_of (r m)), source_url = CStr url\<rparr>)
        month_columns_raw))
    \<and> length month_columns_raw = 12"
  using assms(1,3,4,5) by (rule transform_climate_data_one)

theorem transform_climate_data_single_witness:
  "punjab_1901 ''subdivision'' = Some (RStr ''PUNJAB'')
   \<and> ascii_text ''PUNJAB''
   \<and> to_numeric decimal (cell_of (punjab_1901 ''year'')) = CNum 1901
   \<and> punjab_1901 ''rainfall_mm'' = None
   \<and> transform_climate_data decimal [punjab_1901] climate_url = Inr climate_frame_ex
   \<and> length climate_frame_ex = 12"
proof -
  from transform_climate_data_single [OF punjab_1901_ex(1) ascii_text_ex(1) punjab_1901_ex(2)
      punjab_1901_months punjab_1901_ex(3), of climate_url]
  have "transform_climate_data decimal [punjab_1901] climate_url = Inr climate_frame_ex"
    by (simp only: punjab_1901_rows)
  moreover have "length climate_frame_ex = 12"
    by (simp add: climate_frame_ex_def)
  ultimately show ?thesis
    using punjab_1901_ex ascii_text_ex(1) by simp
qed

text \<open>
  C2 as stated fails on the subdivision: the record carries \<^verbatim>\<open>PUNJAB\<close>, and each of its
  twelve rows carries \<^verbatim>\<open>Punjab\<close>.
\<close>

theorem transform_climate_data_same_subdivision_counterexample:
  "cell_of (punjab_1901 ''subdivision'') = CStr ''PUNJAB''
   \<and> transform_climate_data decimal [punjab_1901] climate_url = Inr climate_frame_ex
   \<and> map (subdivision \<circ> snd) climate_frame_ex = replicate 12 (CStr ''Punjab'')
   \<and> CStr ''Punjab'' \<noteq> CStr ''PUNJAB''"
  using climate_transform_ex
  by (simp add: punjab_1901_def climate_frame_ex_def climate_row_ex_def numeral_eq_Suc)

text \<open>
  Why the record has to be as C2 is restated for. With a value for December that is not
  read as a number, the record gives eleven rows; with an infinite year, \<^verbatim>\<open>astype(int)\<close>
  raises; with a key \<^verbatim>\<open>rainfall_mm\<close>, \<^verbatim>\<open>melt\<close> raises.
\<close>

lemma transform_climate_data_value_name_ex:
  "transform_climate_data decimal [punjab_1901_value_name] climate_url = Inl ValueError"
  by (simp add: transform_climate_data_def has_column_def punjab_1901_value_name_def)

lemma punjab_columns_ex:
  assumes "r = punjab_1901(k \<mapsto> v)" and "k \<noteq> ''rainfall_mm''"
  shows "\<not> has_column (\<lambda>r. r ''rainfall_mm'') [r]"
    and "has_column (\<lambda>r. r ''subdivision'') [r] \<and> has_column (\<lambda>r. r ''year'') [r]
            \<and> list_all (\<lambda>m. has_column (\<lambda>r. r m) [r]) month_columns_raw"
  using assms by (simp_all add: has_column_def punjab_1901_def month_columns_raw_def)

lemma transform_climate_data_infinite_year_ex:
  "transform_climate_data decimal [punjab_infinite_year] climate_url = Inl IntCastingNaNError"
proof -
  have sub: "punjab_infinite_year ''subdivision'' = Some (RStr ''PUNJAB'')"
    and yr: "to_numeric decimal (cell_of (punjab_infinite_year ''year'')) = CInf"
    and jan: "to_numeric decimal (cell_of (punjab_infinite_year ''jan'')) = CNum (347 / 10)"
    by (simp_all add: punjab_infinite_year_def punjab_1901_def decimal_rain_ex)
  note cols = punjab_columns_ex [OF punjab_infinite_year_def]
  have "list_ex (\<lambda>(i, r). climate_row.year r = CInf)
     (filter (\<lambda>(i, r). rainfall_mm r \<noteq> CNull)
      (enumerate 0 (map (\<lambda>m.
        \<lparr>subdivision = CStr ''PUNJAB'', year = CInf, month = CStr m,
         rainfall_mm = to_numeric decimal (cell_of (punjab_infinite_year m)),
         source_url = CStr climate_url\<rparr>)
        month_columns_raw)))"
    by (simp add: month_columns_raw_def jan)
  then show ?thesis
    unfolding transform_climate_data_def Let_def
      melt_single [OF sub yr cell_not_CNull(2), of climate_url]
    using cols by simp
qed

lemma transform_climate_data_no_dec_ex:
  "\<exists>df. transform_climate_data decimal [punjab_1901_no_dec] climate_url = Inr df
     \<and> map fst df = [0, 1, 2, 3, 4, 5, 6, 7, 8, 9, 10]
     \<and> to_numeric decimal (cell_of (punjab_1901_no_dec ''dec'')) = CNull"
proof -
  have sub: "punjab_1901_no_dec ''subdivision'' = Some (RStr ''PUNJAB'')"
    and yr: "to_numeric decimal (cell_of (punjab_1901_no_dec ''year'')) = CNum 1901"
    by (simp_all add: punjab_1901_no_dec_def punjab_1901_def decimal_ex)
  have months: "map (\<lambda>m. to_numeric decimal (cell_of (punjab_1901_no_dec m))) month_columns_raw
      = [CNum (347 / 10), CNum (45 / 2), CNum 10, CNum (1 / 2), CNum 12, CNum (281 / 10),
         CNum 160, CNum (681 / 4), CNum 61, CNum 0, CNum 1, CNull]"
    by (simp add: punjab_1901_no_dec_def punjab_1901_def decimal_rain_ex decimal_ex
        month_columns_raw_def)
  note cols = punjab_columns_ex [OF punjab_1901_no_dec_def]
  have obj: "object_column (\<lambda>r. r ''subdivision'') [punjab_1901_no_dec]"
    using sub by (simp add: object_column_def is_str_def)
  have left: "filter (\<lambda>(i, r). rainfall_mm r \<noteq> CNull)
      (enumerate 0 (map (\<lambda>m.
        \<lparr>subdivision = CStr ''PUNJAB'', year = CNum 1901, month = CStr m,
         rainfall_mm = to_numeric decimal (cell_of (punjab_1901_no_dec m)),
         source_url = CStr climate_url\<rparr>)
        month_columns_raw)) =
      map (\<lambda>(i, m, q). (i, \<lparr>subdivision = CStr ''PUNJAB'', year = CNum 1901, month = CStr m,
         rainfall_mm = CNum q, source_url = CStr climate_url\<rparr>))
       [(0, ''jan'', 347 / 10), (1, ''feb'', 45 / 2), (2, ''mar'', 10), (3, ''apr'', 1 / 2),
        (4, ''may'', 12), (5, ''jun'', 281 / 10), (6, ''jul'', 160), (7, ''aug'', 681 / 4),
        (8, ''sep'', 61), (9, ''oct'', 0), (10, ''nov'', 1)]"
    using months by (simp add: month_columns_raw_def)
  have "to_numeric decimal (cell_of (punjab_1901_no_dec ''dec'')) = CNull"
    by (simp add: punjab_1901_no_dec_def decimal_ex)
  then show ?thesis
    unfolding transform_climate_data_def Let_def
      melt_single [OF sub yr cell_not_CNull(1), of climate_url] left
    using cols obj by (simp add: str_accessor_def)
qed

section \<open>The load\<close>




lemma loadable_ex:
  "loadable (AgriFrame agri_frame_ex)" "loadable (AgriFrame (tl agri_frame_ex))"
  "loadable (ClimateFrame climate_frame_ex)"
  by (simp_all add: agri_frame_ex_def climate_frame_ex_def climate_row_ex_def uniform_def)

lemma table_names_ex:
  "''agriculture_production'' \<in> set table_names" "''climate_rainfall'' \<in> set table_names"
  by (simp_all add: table_names_def)

text \<open>The example database is what the load of the two example frames leaves.\<close>

lemma load_to_duckdb_ex:
  "load_to_duckdb
     [(''agriculture_production'', AgriFrame agri_frame_ex),
      (''climate_rainfall'', ClimateFrame climate_frame_ex)] Map.empty = Some database_ex"
  by (simp add: loadable_ex table_names_ex database_ex_def del: loadable.simps)



end
